theory Spec2Isabelle
  imports Complex_Main "HOL-Library.Monad_Syntax"
begin

section \<open>Numbers and vectors\<close>

text \<open>
  The renderer of \<^verbatim>\<open>src/model/sg_render.py\<close> works on tensors of floating point
  numbers. The embedding states its mathematical contract: a tensor entry is a real number,
  every operation is the exact one, and the batch, lobe and sample axes that the source
  leaves to broadcasting are explicit lists. A three-vector (the last axis of size 3 of an
  axis, a direction or an RGB amplitude) is a triple of reals.
\<close>

type_synonym vec3 = "real \<times> real \<times> real"

definition TINY_NUMBER :: real where
  "TINY_NUMBER = 1 / 1000000"

fun vadd :: "vec3 \<Rightarrow> vec3 \<Rightarrow> vec3" where
  "vadd (a1, a2, a3) (b1, b2, b3) = (a1 + b1, a2 + b2, a3 + b3)"


fun vmul :: "vec3 \<Rightarrow> vec3 \<Rightarrow> vec3" where
  "vmul (a1, a2, a3) (b1, b2, b3) = (a1 * b1, a2 * b2, a3 * b3)"

fun smul :: "real \<Rightarrow> vec3 \<Rightarrow> vec3" where
  "smul c (a1, a2, a3) = (c * a1, c * a2, c * a3)"

fun sdiv :: "vec3 \<Rightarrow> real \<Rightarrow> vec3" where
  "sdiv (a1, a2, a3) c = (a1 / c, a2 / c, a3 / c)"

fun vneg :: "vec3 \<Rightarrow> vec3" where
  "vneg (a1, a2, a3) = (- a1, - a2, - a3)"

fun vabs :: "vec3 \<Rightarrow> vec3" where
  "vabs (a1, a2, a3) = (\<bar>a1\<bar>, \<bar>a2\<bar>, \<bar>a3\<bar>)"


fun dot3 :: "vec3 \<Rightarrow> vec3 \<Rightarrow> real" where
  "dot3 (a1, a2, a3) (b1, b2, b3) = a1 * b1 + a2 * b2 + a3 * b3"

fun cross3 :: "vec3 \<Rightarrow> vec3 \<Rightarrow> vec3" where
  "cross3 (a1, a2, a3) (b1, b2, b3) = (a2 * b3 - a3 * b2, a3 * b1 - a1 * b3, a1 * b2 - a2 * b1)"

definition norm3 :: "vec3 \<Rightarrow> real" where
  "norm3 a = sqrt (dot3 a a)"

definition vzero :: vec3 where
  "vzero = (0, 0, 0)"

definition vsum :: "vec3 list \<Rightarrow> vec3" where
  "vsum xs = foldr vadd xs vzero"


section \<open>SG algebra\<close>

text \<open>\<^verbatim>\<open>norm_axis(x) = x / (torch.norm(x) + TINY_NUMBER)\<close>.\<close>

definition norm_axis :: "vec3 \<Rightarrow> vec3" where
  "norm_axis x = sdiv x (norm3 x + TINY_NUMBER)"






text \<open>
  \<^verbatim>\<open>lambda_trick(lobe1, lambda1, mu1, lobe2, lambda2, mu2)\<close> for one pair of lobes;
  \<open>lambda_trick_tmp\<close> is the source's \<^verbatim>\<open>tmp\<close> after the \<^verbatim>\<open>torch.min\<close>.
\<close>

definition lambda_trick_tmp :: "vec3 \<Rightarrow> real \<Rightarrow> vec3 \<Rightarrow> real \<Rightarrow> real" where
  "lambda_trick_tmp lobe1 lambda1 lobe2 lambda2 =
     (let ratio = lambda1 / lambda2;
          dot = dot3 (norm_axis lobe1) (norm_axis lobe2);
          tmp = sqrt (ratio * ratio + 1 + 2 * ratio * dot)
      in min tmp (ratio + 1))"

definition lambda_trick :: "vec3 \<Rightarrow> real \<Rightarrow> vec3 \<Rightarrow> vec3 \<Rightarrow> real \<Rightarrow> vec3 \<Rightarrow> vec3 \<times> real \<times> vec3" where
  "lambda_trick lobe1 lambda1 mu1 lobe2 lambda2 mu2 =
     (let ratio = lambda1 / lambda2;
          l1 = norm_axis lobe1;
          l2 = norm_axis lobe2;
          tmp = lambda_trick_tmp lobe1 lambda1 lobe2 lambda2;
          lambda3 = lambda2 * tmp;
          lambda1_over_lambda3 = ratio / tmp;
          lambda2_over_lambda3 = 1 / tmp;
          diff = lambda2 * (tmp - ratio - 1);
          final_lobes = vadd (smul lambda1_over_lambda3 l1) (smul lambda2_over_lambda3 l2);
          final_lambdas = lambda3;
          final_mus = smul (exp diff) (vmul mu1 mu2)
      in (final_lobes, final_lambdas, final_mus))"

section \<open>Checked divisions\<close>






section \<open>Tensor helpers\<close>


definition tensor_min :: "real list \<Rightarrow> real option" where
  "tensor_min xs = (case xs of [] \<Rightarrow> None | x # ys \<Rightarrow> Some (fold min ys x))"


text \<open>
  \<^verbatim>\<open>torch.split(t, split_size)\<close> on a tensor of rank one: consecutive chunks of
  \<open>split_size\<close> entries, the last one shorter; an empty tensor gives one empty chunk.
\<close>

function chunks :: "nat \<Rightarrow> 'a list \<Rightarrow> 'a list list" where
  "chunks n xs = (if n = 0 \<or> xs = [] then [] else take n xs # chunks n (drop n xs))"
  by pat_completeness auto
termination
  by (relation "measure (\<lambda>(n, xs). length xs)") auto

declare chunks.simps [simp del]

definition torch_split :: "'a list \<Rightarrow> nat \<Rightarrow> 'a list list" where
  "torch_split xs split_size = (if xs = [] then [[]] else chunks split_size xs)"

text \<open>
  \<^verbatim>\<open>vis = torch.zeros(...); vis[cos_term] = pred_vis\<close> on the flattened tensor: the entries
  where the mask holds take the values in order, the others stay 0.
\<close>

fun scatter :: "bool list \<Rightarrow> real list \<Rightarrow> real list" where
  "scatter [] vs = []"
| "scatter (False # ms) vs = 0 # scatter ms vs"
| "scatter (True # ms) (v # vs) = v # scatter ms vs"
| "scatter (True # ms) [] = 0 # scatter ms []"

text \<open>\<^verbatim>\<open>reshape\<close> of a flat tensor into \<open>rows\<close> rows of \<open>width\<close> entries.\<close>

fun unflat :: "nat \<Rightarrow> nat \<Rightarrow> 'a list \<Rightarrow> 'a list list" where
  "unflat 0 width xs = []"
| "unflat (Suc rows) width xs = take width xs # unflat rows width (drop width xs)"

text \<open>\<^verbatim>\<open>permute(1, 2, 0)\<close> of a tensor of shape \<open>[P, L, K]\<close> into shape \<open>[L, K, P]\<close>.\<close>

definition permute_120 :: "nat \<Rightarrow> nat \<Rightarrow> 'a list list list \<Rightarrow> 'a list list list" where
  "permute_120 L K xs = map (\<lambda>l. map (\<lambda>k. map (\<lambda>row. row ! l ! k) xs) [0..<K]) [0..<L]"


section \<open>Visibility sampler\<close>

text \<open>
  The visibility predictor gives a score for each of the two classes (occluded, visible).
\<close>

type_synonym predictor = "vec3 \<Rightarrow> vec3 \<Rightarrow> real \<times> real"

text \<open>
  Modelled from the spec: the visibility predictor \<^verbatim>\<open>VisModel\<close> is an external collaborator
  and not part of the source. The spec (sections 5 and 6) treats it as a pure function from
  (point, direction) to a two-class score that is applied to a batch of rows; the call
  \<^verbatim>\<open>VisModel(input_p[...], input_dir[...])\<close> on a batch is its application to every row.
\<close>

definition VisModel_batch :: "predictor \<Rightarrow> (vec3 \<times> vec3) list \<Rightarrow> (real \<times> real) list" where
  "VisModel_batch VisModel batch = map (\<lambda>(p, d). VisModel p d) batch"

text \<open>
  The sources of the uniform random numbers \<^verbatim>\<open>torch.rand(n, nsamp)\<close> are arguments of the
  model: entry \<open>(i, k)\<close> of the drawn tensor is \<open>rand i k\<close>.
\<close>

type_synonym rand_source = "nat \<Rightarrow> nat \<Rightarrow> real"

definition argmax2 :: "real \<times> real \<Rightarrow> real" where
  "argmax2 s = (if fst s < snd s then 1 else 0)"

definition argmin2 :: "real \<times> real \<Rightarrow> real" where
  "argmin2 s = (if snd s < fst s then 1 else 0)"

definition softmax2 :: "real \<times> real \<Rightarrow> real \<times> real" where
  "softmax2 s = (exp (fst s) / (exp (fst s) + exp (snd s)), exp (snd s) / (exp (fst s) + exp (snd s)))"

text \<open>
  The orthonormal frame \<open>(U, V)\<close> around an axis and a direction sampled in it:
  \<^verbatim>\<open>U * cos(r_theta) * sin(r_phi) + V * sin(r_theta) * sin(r_phi) + axis * cos(r_phi)\<close>.
\<close>

definition sample_frame :: "vec3 \<Rightarrow> vec3 \<times> vec3" where
  "sample_frame axis =
     (let z_axis = (0, 0, 1);
          U = norm_axis (cross3 z_axis axis);
          V = norm_axis (cross3 axis U)
      in (U, V))"

definition sample_direction :: "vec3 \<Rightarrow> real \<Rightarrow> real \<Rightarrow> vec3" where
  "sample_direction axis r_theta r_phi =
     (let (U, V) = sample_frame axis
      in vadd (vadd (smul (cos r_theta * sin r_phi) U) (smul (sin r_theta * sin r_phi) V))
           (smul (cos r_phi) axis))"

text \<open>
  The batched forward pass over the rows selected by \<^verbatim>\<open>cos_term\<close>. A row is a
  (point, direction) pair with its mask bit; \<open>masked_rows\<close> is
  \<^verbatim>\<open>(input_p[cos_term], input_dir[cos_term])\<close>, and \<open>predict_masked\<close> fills \<^verbatim>\<open>pred_vis\<close>
  chunk by chunk, the chunks being those of \<^verbatim>\<open>torch.split(torch.arange(n_mask_dir), batch_size)\<close>.
\<close>

definition masked_rows :: "((vec3 \<times> vec3) \<times> bool) list \<Rightarrow> (vec3 \<times> vec3) list" where
  "masked_rows rows = map fst (filter snd rows)"

definition predict_masked :: "nat \<Rightarrow> predictor \<Rightarrow> (vec3 \<times> vec3) list \<Rightarrow> (real \<times> real) list" where
  "predict_masked batch_size VisModel queries =
     concat (map (VisModel_batch VisModel) (torch_split queries batch_size))"


subsection \<open>Diffuse visibility\<close>

text \<open>
  \<^verbatim>\<open>get_diffuse_visibility\<close>. \<open>diffuse_sample_dir\<close> is \<^verbatim>\<open>sample_dir\<close> of shape
  \<open>[n_lobe, nsamp]\<close>, \<open>diffuse_rows\<close> the flattened \<open>[n_points, n_lobe * nsamp]\<close> tensor of
  (point, direction) pairs with \<^verbatim>\<open>cos_term\<close>. The result is \<^verbatim>\<open>vis\<close> of shape
  \<open>[n_lobe, nsamp, n_points]\<close> when \<^verbatim>\<open>bounding\<close> is set and \<^verbatim>\<open>mean_vis\<close> of shape
  \<open>[n_lobe, n_points]\<close> otherwise. The flag \<^verbatim>\<open>testing\<close> only switches gradients off. The
  batch size, 2000000 in the source, is an argument of \<open>get_diffuse_visibility_batched\<close>.
\<close>

datatype vis_result = Per_sample "real list list list" | Aggregated "real list list"

definition diffuse_sample_dir ::
  "vec3 list \<Rightarrow> real list \<Rightarrow> nat \<Rightarrow> real \<Rightarrow> rand_source \<Rightarrow> rand_source \<Rightarrow> vec3 list list option" where
  "diffuse_sample_dir lgtSGLobes lgtSGLambdas nsamp thr rand_theta rand_phi =
     (let light_dirs = map norm_axis lgtSGLobes;
          sharpness = map (\<lambda>x. max x (1 / 10000)) lgtSGLambdas
      in case tensor_min sharpness of
           None \<Rightarrow> None
         | Some sharpness_min \<Rightarrow>
             Some (let sg_range = min sharpness_min thr
                   in map (\<lambda>(l, axis, sh).
                        let r_phi_range = arccos ((- 0.95 * sg_range) / sh + 1)
                        in map (\<lambda>k. sample_direction axis (rand_theta l k * 2 * pi)
                                        (rand_phi l k * r_phi_range)) [0..<nsamp])
                      (enumerate 0 (zip light_dirs sharpness))))"

definition diffuse_rows :: "vec3 list \<Rightarrow> vec3 list \<Rightarrow> vec3 list list \<Rightarrow> ((vec3 \<times> vec3) \<times> bool) list" where
  "diffuse_rows points normals sample_dir =
     concat (map (\<lambda>(p, n). map (\<lambda>d. ((p, d), dot3 n d > TINY_NUMBER)) (concat sample_dir))
               (zip points normals))"

definition diffuse_reduce :: "bool \<Rightarrow> real \<times> real \<Rightarrow> real" where
  "diffuse_reduce argmax_vis s = (if argmax_vis then argmax2 s else snd (softmax2 s))"

definition diffuse_vis_samples ::
  "nat \<Rightarrow> vec3 list \<Rightarrow> vec3 list \<Rightarrow> predictor \<Rightarrow> vec3 list list \<Rightarrow> nat \<Rightarrow> nat \<Rightarrow> bool
     \<Rightarrow> real list list list" where
  "diffuse_vis_samples batch_size points normals VisModel sample_dir n_lobe nsamp argmax_vis =
     (let n_points = length points;
          rows = diffuse_rows points normals sample_dir;
          cos_term = map snd rows;
          pred_vis = predict_masked batch_size VisModel (masked_rows rows);
          pred_vis' = map (diffuse_reduce argmax_vis) pred_vis;
          vis_flat = scatter cos_term pred_vis';
          vis_points = map (unflat n_lobe nsamp) (unflat n_points (n_lobe * nsamp) vis_flat)
      in permute_120 n_lobe nsamp vis_points)"

definition diffuse_weight_vis :: "vec3 list list \<Rightarrow> vec3 list \<Rightarrow> real list \<Rightarrow> real list list" where
  "diffuse_weight_vis sample_dir light_dirs lgtSGLambdas =
     map (\<lambda>(dirs, axis, lam). map (\<lambda>d. exp (lam * (dot3 d axis - 1))) dirs)
       (zip sample_dir (zip light_dirs lgtSGLambdas))"

definition diffuse_mean_vis :: "nat \<Rightarrow> real list list list \<Rightarrow> real list list \<Rightarrow> real list list" where
  "diffuse_mean_vis n_points vis weight_vis =
     map (\<lambda>(vs, ws).
            let weight_sum = sum_list ws + TINY_NUMBER
            in map (\<lambda>p. sum_list (map (\<lambda>(v, w). v ! p * w) (zip vs ws)) / weight_sum)
                 [0..<n_points])
       (zip vis weight_vis)"

definition get_diffuse_visibility_batched ::
  "nat \<Rightarrow> vec3 list \<Rightarrow> vec3 list \<Rightarrow> predictor \<Rightarrow> vec3 list \<Rightarrow> real list \<Rightarrow> nat \<Rightarrow> bool \<Rightarrow> real
     \<Rightarrow> bool \<Rightarrow> bool \<Rightarrow> rand_source \<Rightarrow> rand_source \<Rightarrow> vis_result option" where
  "get_diffuse_visibility_batched batch_size points normals VisModel lgtSGLobes lgtSGLambdas
       nsamp testing thr bounding argmax_vis rand_theta rand_phi =
     (case diffuse_sample_dir lgtSGLobes lgtSGLambdas nsamp thr rand_theta rand_phi of
        None \<Rightarrow> None
      | Some sample_dir \<Rightarrow>
          Some (let n_lobe = length lgtSGLobes;
                    n_points = length points;
                    light_dirs = map norm_axis lgtSGLobes;
                    vis = diffuse_vis_samples batch_size points normals VisModel sample_dir
                            n_lobe nsamp argmax_vis;
                    weight_vis = diffuse_weight_vis sample_dir light_dirs lgtSGLambdas;
                    mean_vis = diffuse_mean_vis n_points vis weight_vis
                in if bounding then Per_sample vis else Aggregated mean_vis))"

definition get_diffuse_visibility ::
  "vec3 list \<Rightarrow> vec3 list \<Rightarrow> predictor \<Rightarrow> vec3 list \<Rightarrow> real list \<Rightarrow> nat \<Rightarrow> bool \<Rightarrow> real
     \<Rightarrow> bool \<Rightarrow> bool \<Rightarrow> rand_source \<Rightarrow> rand_source \<Rightarrow> vis_result option" where
  "get_diffuse_visibility = get_diffuse_visibility_batched 2000000"

subsection \<open>Specular visibility\<close>

text \<open>
  \<^verbatim>\<open>get_specular_visibility\<close>. The sampling axis of a point is the mirror direction
  \<^verbatim>\<open>ref_dir\<close>, the weights use the lobes and the clipped sharpness that are passed in.
  With \<^verbatim>\<open>multi_view\<close> unset the tensors have shape \<open>[B, ...]\<close>; with \<^verbatim>\<open>multi_view\<close> set
  the view directions, lobes and sharpness have a leading view axis \<open>[V, B, ...]\<close> and the
  flags \<^verbatim>\<open>testing\<close>, \<^verbatim>\<open>inv\<close> and \<^verbatim>\<open>argmax_vis\<close> are not read, so the two ranks are two
  functions here. The branch under \<^verbatim>\<open>testing\<close> that resets infinite weights has nothing to
  do on real numbers. The batch size is 10000000 in the source.
\<close>

definition reflect_dir :: "vec3 \<Rightarrow> vec3 \<Rightarrow> vec3" where
  "reflect_dir normal viewdir =
     (let n_dot_v = max (dot3 normal viewdir) 0
      in vadd (vneg viewdir) (smul (2 * n_dot_v) normal))"

definition specular_sharpness :: "real list \<Rightarrow> real list" where
  "specular_sharpness lgtSGLambdas = map (\<lambda>x. min (max x 0.1) 50) lgtSGLambdas"

definition specular_sample_dir ::
  "vec3 list \<Rightarrow> vec3 list \<Rightarrow> real list \<Rightarrow> real \<Rightarrow> nat \<Rightarrow> rand_source \<Rightarrow> rand_source \<Rightarrow> vec3 list list" where
  "specular_sample_dir normals viewdirs sharpness sg_range nsamp rand_theta rand_phi =
     map (\<lambda>(p, n, v, sh).
            let ref_dir = reflect_dir n v;
                r_phi_range = arccos ((- 0.95 * sg_range) / sh + 1)
            in map (\<lambda>k. sample_direction ref_dir (rand_theta p k * 2 * pi)
                            (rand_phi p k * r_phi_range)) [0..<nsamp])
         (enumerate 0 (zip normals (zip viewdirs sharpness)))"

definition specular_rows :: "vec3 list \<Rightarrow> vec3 list \<Rightarrow> vec3 list list \<Rightarrow> ((vec3 \<times> vec3) \<times> bool) list" where
  "specular_rows points normals sample_dir =
     concat (map (\<lambda>(p, n, dirs). map (\<lambda>d. ((p, d), dot3 n d > TINY_NUMBER)) dirs)
               (zip points (zip normals sample_dir)))"

definition specular_aggregate ::
  "real list list \<Rightarrow> vec3 list list \<Rightarrow> vec3 list \<Rightarrow> real list \<Rightarrow> real list" where
  "specular_aggregate vis sample_dir light_dirs sharpness =
     map (\<lambda>(vs, dirs, axis, sh).
            let weight_vis = map (\<lambda>d. exp (sh * (dot3 d axis - 1))) dirs
            in sum_list (map (\<lambda>(v, w). v * w) (zip vs weight_vis)) / (sum_list weight_vis + TINY_NUMBER))
         (zip vis (zip sample_dir (zip light_dirs sharpness)))"

definition specular_reduce :: "bool \<Rightarrow> bool \<Rightarrow> real \<times> real \<Rightarrow> real" where
  "specular_reduce inv' argmax_vis s =
     (if inv' then (if argmax_vis then argmin2 s else fst (softmax2 s))
      else (if argmax_vis then argmax2 s else snd (softmax2 s)))"

definition specular_vis_samples ::
  "nat \<Rightarrow> vec3 list \<Rightarrow> vec3 list \<Rightarrow> predictor \<Rightarrow> vec3 list list \<Rightarrow> nat \<Rightarrow> bool \<Rightarrow> bool
     \<Rightarrow> real list list" where
  "specular_vis_samples batch_size points normals VisModel sample_dir nsamp inv' argmax_vis =
     (let rows = specular_rows points normals sample_dir;
          cos_term = map snd rows;
          pred_vis = predict_masked batch_size VisModel (masked_rows rows);
          pred_vis' = map (specular_reduce inv' argmax_vis) pred_vis
      in unflat (length points) nsamp (scatter cos_term pred_vis'))"

definition get_specular_visibility_batched ::
  "nat \<Rightarrow> vec3 list \<Rightarrow> vec3 list \<Rightarrow> vec3 list \<Rightarrow> predictor \<Rightarrow> vec3 list \<Rightarrow> real list \<Rightarrow> nat
     \<Rightarrow> bool \<Rightarrow> bool \<Rightarrow> bool \<Rightarrow> rand_source \<Rightarrow> rand_source \<Rightarrow> real list option" where
  "get_specular_visibility_batched batch_size points normals viewdirs VisModel lgtSGLobes lgtSGLambdas
       nsamp testing inv' argmax_vis rand_theta rand_phi =
     (let sharpness = specular_sharpness lgtSGLambdas
      in case tensor_min sharpness of
           None \<Rightarrow> None
         | Some sharpness_min \<Rightarrow>
             Some (let sg_range = min sharpness_min 1;
                       sample_dir = specular_sample_dir normals viewdirs sharpness sg_range nsamp
                                      rand_theta rand_phi;
                       vis = specular_vis_samples batch_size points normals VisModel sample_dir
                               nsamp inv' argmax_vis
                   in specular_aggregate vis sample_dir lgtSGLobes sharpness))"


definition specular_vis_samples_multi_view ::
  "nat \<Rightarrow> vec3 list \<Rightarrow> vec3 list \<Rightarrow> predictor \<Rightarrow> vec3 list list list \<Rightarrow> nat \<Rightarrow> real list list list" where
  "specular_vis_samples_multi_view batch_size points normals VisModel sample_dir nsamp =
     (let rows = concat (map (specular_rows points normals) sample_dir);
          cos_term = map snd rows;
          pred_vis = predict_masked batch_size VisModel (masked_rows rows);
          pred_vis' = map argmax2 pred_vis
      in map (unflat (length points) nsamp)
           (unflat (length sample_dir) (length points * nsamp) (scatter cos_term pred_vis')))"

definition get_specular_visibility_multi_view_batched ::
  "nat \<Rightarrow> vec3 list \<Rightarrow> vec3 list \<Rightarrow> vec3 list list \<Rightarrow> predictor \<Rightarrow> vec3 list list \<Rightarrow> real list list
     \<Rightarrow> nat \<Rightarrow> rand_source \<Rightarrow> rand_source \<Rightarrow> real list list option" where
  "get_specular_visibility_multi_view_batched batch_size points normals viewdirs VisModel lgtSGLobes
       lgtSGLambdas nsamp rand_theta rand_phi =
     (let sharpness = map specular_sharpness lgtSGLambdas
      in case tensor_min (concat sharpness) of
           None \<Rightarrow> None
         | Some sharpness_min \<Rightarrow>
             Some (let sg_range = min sharpness_min 1;
                       sample_dir = map (\<lambda>(vd, sh). specular_sample_dir normals vd sh sg_range nsamp
                                                        rand_theta rand_phi)
                                      (zip viewdirs sharpness);
                       vis = specular_vis_samples_multi_view batch_size points normals VisModel
                               sample_dir nsamp
                   in map (\<lambda>(vis_v, dirs_v, lobes_v, sh_v). specular_aggregate vis_v dirs_v lobes_v sh_v)
                        (zip vis (zip sample_dir (zip lgtSGLobes sharpness)))))"


section \<open>SG shading engine\<close>

text \<open>
  \<^verbatim>\<open>render_with_sg\<close> for view directions of shape \<open>[batch_size, 3]\<close>, the shape its
  docstring gives. A light SG is a row of seven numbers: axis, sharpness, amplitude. The
  arguments of the call are a record; \<^verbatim>\<open>kl_divergence\<close>, imported from a module that is
  not part of the source, is one of them. \<^verbatim>\<open>prefit\<close> is compared with the strings
  \<^verbatim>\<open>"warmup"\<close> and \<^verbatim>\<open>"project"\<close>; every other value takes the last branch.
\<close>

type_synonym lgtSG = "vec3 \<times> real \<times> vec3"

datatype prefit_mode = Warmup | Project | No_prefit

record shading_input =
  points :: "vec3 list"
  normal :: "vec3 list"
  viewdirs :: "vec3 list"
  lgtSGs :: "lgtSG list list"
  specular_reflectance :: real
  roughness :: "real list"
  diffuse_albedo :: "vec3 list"
  comp_vis :: bool
  VisModel :: predictor
  fun_spec :: bool
  lin_diff :: bool
  testing :: bool
  indir_integral :: "vec3 list option"
  metallic :: "vec3 list option"
  diffuse_vis :: "real list list option"
  prefit :: prefit_mode
  argmax_vis :: bool
  kl_divergence :: "real list list \<Rightarrow> real \<Rightarrow> real"








subsection \<open>Light visibility and supervision\<close>





subsection \<open>Diffuse term\<close>




subsection \<open>Specular term\<close>





subsection \<open>The renderer\<close>


section \<open>Environment map codec\<close>

text \<open>
  \<^verbatim>\<open>render_envmap_sg\<close> for one view direction: the sum over the lobes of
  \<^verbatim>\<open>mu * exp(lambda * (dot(viewdir, lobe) - 1))\<close>. The axis is divided by its norm, without
  an epsilon.
\<close>

definition render_envmap_sg :: "lgtSG list \<Rightarrow> vec3 \<Rightarrow> vec3" where
  "render_envmap_sg sgs viewdir =
     vsum (map (\<lambda>(lobe, lam, mu).
                  let lgtSGLobes = sdiv lobe (norm3 lobe);
                      lgtSGLambdas = \<bar>lam\<bar>;
                      lgtSGMus = vabs mu
                  in smul (exp (lgtSGLambdas * (dot3 viewdir lgtSGLobes - 1))) lgtSGMus) sgs)"

text \<open>
  \<^verbatim>\<open>torch.linspace(start, end, steps)\<close> and the direction of the grid cell with polar
  angle \<open>phi\<close> and azimuth \<open>theta\<close>.
\<close>

definition linspace :: "real \<Rightarrow> real \<Rightarrow> nat \<Rightarrow> real list" where
  "linspace start end steps =
     (if steps = 1 then [start]
      else map (\<lambda>i. start + real i * ((end - start) / real (steps - 1))) [0..<steps])"

definition grid_dir :: "real \<Rightarrow> real \<Rightarrow> vec3" where
  "grid_dir phi theta = (cos theta * sin phi, sin theta * sin phi, cos phi)"

text \<open>\<^verbatim>\<open>compute_envmap\<close>: the image of shape \<open>[H, W]\<close> of RGB values.\<close>

definition compute_envmap :: "lgtSG list \<Rightarrow> nat \<Rightarrow> nat \<Rightarrow> bool \<Rightarrow> vec3 list list" where
  "compute_envmap sgs H W upper_hemi =
     (let phis = (if upper_hemi then linspace 0 (pi / 2) H else linspace 0 pi H);
          thetas = linspace (1.0 * pi) (- 1.0 * pi) W
      in map (\<lambda>phi. map (\<lambda>theta. render_envmap_sg sgs (grid_dir phi theta)) thetas) phis)"









text \<open>
  The view direction that \<^verbatim>\<open>compute_envmap\<close> builds for the grid cell in row \<open>i\<close> and
  column \<open>j\<close>: the entry \<^verbatim>\<open>viewdirs[i, j]\<close> of the stacked mesh grid.
\<close>

definition envmap_viewdir :: "nat \<Rightarrow> nat \<Rightarrow> nat \<Rightarrow> nat \<Rightarrow> vec3" where
  "envmap_viewdir H W i j = grid_dir (linspace 0 pi H ! i) (linspace (1.0 * pi) (- 1.0 * pi) W ! j)"

text \<open>
  The closed forms of the two angles of that grid cell, the horizontal pixel coordinate at
  which \<^verbatim>\<open>render_envmap\<close> reads the image for a view direction, and the sum of the
  amplitudes of the lobes, which bounds every value of the image.
\<close>

definition phi_i :: "nat \<Rightarrow> nat \<Rightarrow> real" where
  "phi_i H i = real i * (pi / real (H - 1))"

definition theta_j :: "nat \<Rightarrow> nat \<Rightarrow> real" where
  "theta_j W j = pi - real j * (2 * pi / real (W - 1))"



section \<open>NaN checks\<close>

text \<open>
  Real numbers have no NaN. The checks \<^verbatim>\<open>if torch.isnan(x).sum() > 0: ipdb.set_trace()\<close>
  that precede the returns of the samplers and of the renderer are modelled on their own,
  over tensor entries that are a finite number, an infinity or NaN; for the checks the shape
  of a tensor does not matter, so a tensor is the list of its entries. An outcome is a
  returned value, or the interactive debugger \<^verbatim>\<open>ipdb\<close> entered at a breakpoint with the
  value that would be returned next.
\<close>

datatype fnum = Finite real | PInf | NInf | NaN








section \<open>A scenario\<close>

text \<open>
  The scenario of the spec's testable properties, used for the concrete instances below: a
  single light lobe of axis \<open>(0, 0, 1)\<close>, sharpness 10 and amplitude \<open>(1, 1, 1)\<close>, and one
  point with normal and view direction \<open>(0, 0, 1)\<close>, albedo \<open>(1/2, 1/2, 1/2)\<close> and roughness
  \<open>1/2\<close>, under a predictor that always favours the visible class.
\<close>

definition always_visible :: predictor where
  "always_visible p d = (0, 1)"

definition no_rand :: rand_source where
  "no_rand i k = 0"




section \<open>Properties of the SG algebra\<close>

lemma TINY_pos: "0 < TINY_NUMBER"
  by (simp add: TINY_NUMBER_def)

lemma dot3_self_nonneg: "0 \<le> dot3 a a"
  by (cases a) simp


lemma dot3_sdiv: "dot3 (sdiv a c) (sdiv b d) = dot3 a b / (c * d)"
  by (cases a; cases b) (simp add: add_divide_distrib)

subsection \<open>The mixing factor of the hemisphere integral\<close>







subsection \<open>The hemisphere integral at the two poles\<close>















subsection \<open>The product of an SG with itself\<close>

lemma dot3_norm_axis_unit:
  assumes "norm3 u = 1"
  shows "dot3 (norm_axis u) (norm_axis u) = 1 / (1 + TINY_NUMBER)\<^sup>2"
proof -
  have "dot3 u u = (norm3 u)\<^sup>2" by (simp add: norm3_def dot3_self_nonneg)
  then have "dot3 u u = 1" using assms by simp
  then show ?thesis by (simp add: norm_axis_def dot3_sdiv assms power2_eq_square)
qed

lemma self_tmp_bounds:
  "2 - 2 * TINY_NUMBER \<le> sqrt (2 + 2 / (1 + TINY_NUMBER)\<^sup>2)
   \<and> sqrt (2 + 2 / (1 + TINY_NUMBER)\<^sup>2) \<le> 2 - TINY_NUMBER / 2"
proof -
  have lo: "(2 - 2 * TINY_NUMBER)\<^sup>2 \<le> 2 + 2 / (1 + TINY_NUMBER)\<^sup>2"
    by (simp add: TINY_NUMBER_def power2_eq_square)
  have hi: "2 + 2 / (1 + TINY_NUMBER)\<^sup>2 \<le> (2 - TINY_NUMBER / 2)\<^sup>2"
    by (simp add: TINY_NUMBER_def power2_eq_square)
  have "2 - 2 * TINY_NUMBER \<le> sqrt (2 + 2 / (1 + TINY_NUMBER)\<^sup>2)"
    by (rule real_le_rsqrt[OF lo])
  moreover have "sqrt (2 + 2 / (1 + TINY_NUMBER)\<^sup>2) \<le> 2 - TINY_NUMBER / 2"
    by (rule real_le_lsqrt[OF _ hi]) (simp add: TINY_NUMBER_def)
  ultimately show ?thesis by simp
qed

lemma lambda_trick_tmp_self:
  assumes u: "norm3 u = 1" and l: "l \<noteq> 0"
  shows "lambda_trick_tmp u l u l = sqrt (2 + 2 / (1 + TINY_NUMBER)\<^sup>2)"
proof -
  have "sqrt (2 + 2 / (1 + TINY_NUMBER)\<^sup>2) \<le> 2" using self_tmp_bounds TINY_pos by linarith
  then show ?thesis
    unfolding lambda_trick_tmp_def Let_def using l by (simp add: dot3_norm_axis_unit[OF u])
qed

lemma lambda_trick_self:
  assumes u: "norm3 u = 1" and l: "l \<noteq> 0"
  shows "snd (lambda_trick u l mu1 u l mu2) =
           (l * lambda_trick_tmp u l u l,
            smul (exp (l * (lambda_trick_tmp u l u l - 2))) (vmul mu1 mu2))"
  unfolding lambda_trick_def Let_def using l by simp

lemma norm3_e3: "norm3 (0, 0, 1) = 1"
  by (simp add: norm3_def)

text \<open>
  Claim C2, as stated, at two equal SGs of axis \<open>(0, 0, 1)\<close>, sharpness \<open>10\<^sup>7\<close> and amplitude
  \<open>(1, 1, 1)\<close>: the resulting sharpness is below \<open>2 * lambda1\<close> by more than 4, and the
  resulting amplitude is below half of \<open>mu1 * mu2\<close>. \<^verbatim>\<open>lambda_trick\<close> renormalises both
  axes with \<^verbatim>\<open>norm_axis\<close>, which divides by \<open>1 + TINY_NUMBER\<close>, so their dot product is
  below 1 and \<^verbatim>\<open>tmp\<close> is below 2.
\<close>

theorem lambda_trick_equal_SGs_counterexample:
  "fst (snd (lambda_trick (0, 0, 1) 10000000 (1, 1, 1) (0, 0, 1) 10000000 (1, 1, 1)))
     < 2 * 10000000 - 4
   \<and> fst (snd (snd (lambda_trick (0, 0, 1) 10000000 (1, 1, 1) (0, 0, 1) 10000000 (1, 1, 1))))
     < 1 / 2 * (1 * 1)"
proof -
  define t where "t = lambda_trick_tmp (0, 0, 1) 10000000 (0, 0, 1) 10000000"
  have "t = sqrt (2 + 2 / (1 + TINY_NUMBER)\<^sup>2)"
    unfolding t_def by (rule lambda_trick_tmp_self[OF norm3_e3]) simp
  then have b: "t \<le> 2 - TINY_NUMBER / 2" using self_tmp_bounds by simp
  have d: "10000000 * (t - 2) \<le> - 5" using b by (simp add: TINY_NUMBER_def)
  have "exp (10000000 * (t - 2)) \<le> exp (- 5 :: real)" using d by simp
  also have "exp (- 5 :: real) = 1 / exp 5" by (simp only: exp_minus inverse_eq_divide)
  also have "\<dots> \<le> 1 / (1 + 5)"
    using exp_ge_add_one_self[of "5::real"] by (intro divide_left_mono) simp_all
  finally have e: "exp (10000000 * (t - 2)) < 1 / 2" by simp
  have l3: "10000000 * t < 2 * 10000000 - 4" using b by (simp add: TINY_NUMBER_def)
  show ?thesis
    using lambda_trick_self[OF norm3_e3, of 10000000 "(1, 1, 1)" "(1, 1, 1)"] e l3
    by (simp add: t_def)
qed

text \<open>
  Claim C2, amended. For two SGs with the same sharpness \<open>lambda1 \<noteq> 0\<close> and the same unit
  axis, \<^verbatim>\<open>tmp\<close> is \<open>sqrt (2 + 2 / (1 + TINY_NUMBER)\<^sup>2)\<close>, which lies between
  \<open>2 - 2 * TINY_NUMBER\<close> and \<open>2 - TINY_NUMBER / 2\<close>; the resulting sharpness is
  \<open>lambda1 * tmp\<close> and the resulting amplitude is \<open>mu1 * mu2 * exp (lambda1 * (tmp - 2))\<close>.
\<close>

theorem lambda_trick_equal_SGs:
  assumes "norm3 lobe = 1" and "lambda1 \<noteq> 0"
  shows "lambda_trick_tmp lobe lambda1 lobe lambda1 = sqrt (2 + 2 / (1 + TINY_NUMBER)\<^sup>2)
       \<and> 2 - 2 * TINY_NUMBER \<le> lambda_trick_tmp lobe lambda1 lobe lambda1
       \<and> lambda_trick_tmp lobe lambda1 lobe lambda1 \<le> 2 - TINY_NUMBER / 2
       \<and> snd (lambda_trick lobe lambda1 mu1 lobe lambda1 mu2) =
           (lambda1 * lambda_trick_tmp lobe lambda1 lobe lambda1,
            smul (exp (lambda1 * (lambda_trick_tmp lobe lambda1 lobe lambda1 - 2)))
              (vmul mu1 mu2))"
  using lambda_trick_tmp_self[OF assms] self_tmp_bounds lambda_trick_self[OF assms]
  by simp

theorem lambda_trick_equal_SGs_witness:
  "norm3 (0, 0, 1) = 1 \<and> (10::real) \<noteq> 0
   \<and> lambda_trick_tmp (0, 0, 1) 10 (0, 0, 1) 10 = sqrt (2 + 2 / (1 + TINY_NUMBER)\<^sup>2)
   \<and> 2 - 2 * TINY_NUMBER \<le> lambda_trick_tmp (0, 0, 1) 10 (0, 0, 1) 10
   \<and> lambda_trick_tmp (0, 0, 1) 10 (0, 0, 1) 10 \<le> 2 - TINY_NUMBER / 2
   \<and> snd (lambda_trick (0, 0, 1) 10 (1, 1, 1) (0, 0, 1) 10 (1, 1, 1)) =
       (10 * lambda_trick_tmp (0, 0, 1) 10 (0, 0, 1) 10,
        smul (exp (10 * (lambda_trick_tmp (0, 0, 1) 10 (0, 0, 1) 10 - 2))) (vmul (1, 1, 1) (1, 1, 1)))"
  using lambda_trick_equal_SGs[of "(0, 0, 1)" 10 "(1, 1, 1)" "(1, 1, 1)"] norm3_e3 by simp

section \<open>Properties of the shading engine\<close>

subsection \<open>When the renderer returns\<close>












subsection \<open>The shape of the result\<close>




subsection \<open>Non-negative radiance\<close>











section \<open>Properties of the visibility sampler\<close>

subsection \<open>Chunked forward pass\<close>

lemma chunks_Nil: "chunks n [] = []"
  by (subst chunks.simps) simp

lemma chunks_step: "0 < n \<Longrightarrow> xs \<noteq> [] \<Longrightarrow> chunks n xs = take n xs # chunks n (drop n xs)"
  by (subst chunks.simps) simp

lemma concat_chunks: "0 < n \<Longrightarrow> concat (chunks n xs) = xs"
proof (induction n xs rule: chunks.induct)
  case (1 n xs)
  show ?case
  proof (cases "xs = []")
    case True
    then show ?thesis by (simp add: chunks_Nil)
  next
    case False
    then have "concat (chunks n (drop n xs)) = drop n xs" using 1 by simp
    then show ?thesis using False 1(2) by (simp add: chunks_step)
  qed
qed

lemma concat_torch_split: "0 < n \<Longrightarrow> concat (torch_split xs n) = xs"
  by (simp add: torch_split_def concat_chunks)

lemma predict_masked_single_batch:
  assumes "0 < batch_size"
  shows "predict_masked batch_size vm queries = VisModel_batch vm queries"
proof -
  have "concat (map (map (\<lambda>(p, d). vm p d)) (torch_split queries batch_size))
      = map (\<lambda>(p, d). vm p d) (concat (torch_split queries batch_size))"
    by (simp add: map_concat)
  then show ?thesis
    unfolding predict_masked_def VisModel_batch_def
    by (simp add: concat_torch_split[OF assms] VisModel_batch_def[abs_def])
qed

lemma torch_split_whole:
  assumes "length xs \<le> n" and "0 < n"
  shows "torch_split xs n = [xs]"
  using assms by (cases "xs = []") (simp_all add: torch_split_def chunks_step chunks_Nil)



lemma length_unflat [simp]: "length (unflat r w xs) = r"
  by (induction r arbitrary: xs) simp_all

subsection \<open>The per-sample visibility\<close>







subsection \<open>Bounds and masked rows\<close>























subsection \<open>The samplers\<close>











subsection \<open>Batch size\<close>

lemma diffuse_vis_samples_size:
  assumes "0 < bs1" and "0 < bs2"
  shows "diffuse_vis_samples bs1 pts nrm vm sd L K am = diffuse_vis_samples bs2 pts nrm vm sd L K am"
  by (simp add: diffuse_vis_samples_def Let_def predict_masked_single_batch[OF assms(1)]
        predict_masked_single_batch[OF assms(2)])

lemma specular_vis_samples_size:
  assumes "0 < bs1" and "0 < bs2"
  shows "specular_vis_samples bs1 pts nrm vm sd K iv am = specular_vis_samples bs2 pts nrm vm sd K iv am"
  by (simp add: specular_vis_samples_def Let_def predict_masked_single_batch[OF assms(1)]
        predict_masked_single_batch[OF assms(2)])

lemma specular_vis_samples_multi_view_size:
  assumes "0 < bs1" and "0 < bs2"
  shows "specular_vis_samples_multi_view bs1 pts nrm vm sd K
       = specular_vis_samples_multi_view bs2 pts nrm vm sd K"
  by (simp add: specular_vis_samples_multi_view_def Let_def predict_masked_single_batch[OF assms(1)]
        predict_masked_single_batch[OF assms(2)])

lemma get_diffuse_visibility_batched_size:
  assumes "0 < bs1" and "0 < bs2"
  shows "get_diffuse_visibility_batched bs1 pts nrm vm lobes lams nsamp tst thr bnd am rt rp
       = get_diffuse_visibility_batched bs2 pts nrm vm lobes lams nsamp tst thr bnd am rt rp"
  unfolding get_diffuse_visibility_batched_def diffuse_vis_samples_size[OF assms] ..

lemma get_specular_visibility_batched_size:
  assumes "0 < bs1" and "0 < bs2"
  shows "get_specular_visibility_batched bs1 pts nrm vd vm lobes lams nsamp tst iv am rt rp
       = get_specular_visibility_batched bs2 pts nrm vd vm lobes lams nsamp tst iv am rt rp"
  unfolding get_specular_visibility_batched_def specular_vis_samples_size[OF assms] ..

lemma get_specular_visibility_multi_view_batched_size:
  assumes "0 < bs1" and "0 < bs2"
  shows "get_specular_visibility_multi_view_batched bs1 pts nrm vds vm lobes lams nsamp rt rp
       = get_specular_visibility_multi_view_batched bs2 pts nrm vds vm lobes lams nsamp rt rp"
  unfolding get_specular_visibility_multi_view_batched_def
    specular_vis_samples_multi_view_size[OF assms] ..


text \<open>
  Claim C8. For any sampled directions and any predictor, filling \<^verbatim>\<open>pred_vis\<close> chunk by
  chunk gives what one evaluation of all masked (point, direction) pairs gives, a chunk size
  of at least the number of masked pairs is a single batch, and each of the three samplers
  returns the same value for every two positive chunk sizes.
\<close>

theorem visibility_batching:
  assumes "0 < batch_size" and "0 < batch_size'"
  shows "predict_masked batch_size vm queries = VisModel_batch vm queries
       \<and> (length queries \<le> batch_size \<longrightarrow> torch_split queries batch_size = [queries])
       \<and> get_diffuse_visibility_batched batch_size pts nrm vm lobes lams nsamp tst thr bnd am rt rp
           = get_diffuse_visibility_batched batch_size' pts nrm vm lobes lams nsamp tst thr bnd am rt rp
       \<and> get_specular_visibility_batched batch_size pts nrm vd vm blobes blams nsamp tst iv am rt rp
           = get_specular_visibility_batched batch_size' pts nrm vd vm blobes blams nsamp tst iv am rt rp
       \<and> get_specular_visibility_multi_view_batched batch_size pts nrm vds vm mlobes mlams nsamp rt rp
           = get_specular_visibility_multi_view_batched batch_size' pts nrm vds vm mlobes mlams nsamp rt rp"
proof -
  have "length queries \<le> batch_size \<longrightarrow> torch_split queries batch_size = [queries]"
    using torch_split_whole[OF _ assms(1)] by blast
  then show ?thesis
    using predict_masked_single_batch[OF assms(1), of vm queries]
      get_diffuse_visibility_batched_size[OF assms, of pts nrm vm lobes lams nsamp tst thr bnd am rt rp]
      get_specular_visibility_batched_size[OF assms, of pts nrm vd vm blobes blams nsamp tst iv am rt rp]
      get_specular_visibility_multi_view_batched_size[OF assms, of pts nrm vds vm mlobes mlams nsamp rt rp]
    by blast
qed

theorem visibility_batching_witness:
  "(0::nat) < 1 \<and> (0::nat) < 2000000
   \<and> predict_masked 1 always_visible [((0, 0, 0), (0, 0, 1)), ((0, 0, 0), (0, 1, 0))]
       = VisModel_batch always_visible [((0, 0, 0), (0, 0, 1)), ((0, 0, 0), (0, 1, 0))]
   \<and> get_diffuse_visibility_batched 1 [(0, 0, 0)] [(0, 0, 1)] always_visible [(0, 0, 1)] [10] 8
         False 1 False False no_rand no_rand
       = get_diffuse_visibility [(0, 0, 0)] [(0, 0, 1)] always_visible [(0, 0, 1)] [10] 8
         False 1 False False no_rand no_rand"
  using visibility_batching[of 1 2000000 always_visible
          "[((0, 0, 0), (0, 0, 1)), ((0, 0, 0), (0, 1, 0))]"
          "[(0, 0, 0)]" "[(0, 0, 1)]" "[(0, 0, 1)]" "[10]" 8 False 1 False False no_rand no_rand]
  by (simp add: get_diffuse_visibility_def)


subsection \<open>Visibility bounds\<close>







section \<open>Properties of the divisions\<close>


















section \<open>Properties of the NaN checks\<close>




section \<open>Properties of the environment map codec\<close>

subsection \<open>The grid\<close>

lemma length_linspace: "length (linspace a b n) = n"
  by (simp add: linspace_def)

lemma linspace_nth:
  assumes "2 \<le> n" and "i < n"
  shows "linspace a b n ! i = a + real i * ((b - a) / real (n - 1))"
  using assms by (simp add: linspace_def)


lemma compute_envmap_nth:
  assumes "2 \<le> H" and "2 \<le> W" and "i < H" and "j < W"
  shows "compute_envmap sgs H W False ! i ! j
       = render_envmap_sg sgs (grid_dir (phi_i H i) (theta_j W j))"
proof -
  have p: "linspace 0 pi H ! i = phi_i H i"
    using linspace_nth[OF assms(1,3), of 0 pi] by (simp add: phi_i_def)
  have t: "linspace pi (- pi) W ! j = theta_j W j"
    using linspace_nth[OF assms(2,4), of pi "- pi"]
    by (simp add: theta_j_def algebra_simps)
  show ?thesis
    using assms(3,4) by (simp add: compute_envmap_def Let_def length_linspace p t)
qed








lemma envmap_viewdir_eq:
  assumes "2 \<le> H" and "2 \<le> W" and "i < H" and "j < W"
  shows "envmap_viewdir H W i j = grid_dir (phi_i H i) (theta_j W j)"
proof -
  have p: "linspace 0 pi H ! i = phi_i H i"
    using linspace_nth[OF assms(1,3), of 0 pi] by (simp add: phi_i_def)
  have t: "linspace pi (- pi) W ! j = theta_j W j"
    using linspace_nth[OF assms(2,4), of pi "- pi"] by (simp add: theta_j_def)
  show ?thesis by (simp add: envmap_viewdir_def p t)
qed

lemma compute_envmap_viewdir:
  assumes "2 \<le> H" and "2 \<le> W" and "i < H" and "j < W"
  shows "compute_envmap sgs H W False ! i ! j = render_envmap_sg sgs (envmap_viewdir H W i j)"
  unfolding envmap_viewdir_eq[OF assms] by (rule compute_envmap_nth[OF assms])

subsection \<open>Channels and bilinear interpolation\<close>











subsection \<open>Bounds of the image\<close>








subsection \<open>Sampling the image at a grid cell centre\<close>








subsection \<open>Round trip\<close>



end
